theory Spec2Isabelle
  imports Main
begin

section \<open>JavaScript values\<close>

text \<open>
  The values the handlers read from \<^verbatim>\<open>req.body\<close> and write into response bodies are JSON
  scalars. A field that is absent reads as \<^verbatim>\<open>undefined\<close>, modelled as \<open>None\<close>.
  Arrays and objects as field values are not modelled.
\<close>

datatype json = JNull | JBool bool | JNum int | JStr string

type_synonym js = "json option"

text \<open>JavaScript truthiness, as used by \<^verbatim>\<open>if (displayName)\<close> and \<^verbatim>\<open>if (!token)\<close>.\<close>

fun truthy :: "js \<Rightarrow> bool" where
  "truthy None = False"
| "truthy (Some JNull) = False"
| "truthy (Some (JBool b)) = b"
| "truthy (Some (JNum n)) = (n \<noteq> 0)"
| "truthy (Some (JStr s)) = (s \<noteq> [])"

text \<open>Decimal text of a number, as \<^verbatim>\<open>Number.prototype.toString\<close> gives it for integers.\<close>

function show_nat :: "nat \<Rightarrow> string" where
  "show_nat n =
     (if n < 10 then [''0123456789'' ! n]
      else show_nat (n div 10) @ [''0123456789'' ! (n mod 10)])"
  by pat_completeness auto
termination
  by (relation "measure (\<lambda>n. n)") auto

definition show_int :: "int \<Rightarrow> string" where
  "show_int i = (if i < 0 then CHR ''-'' # show_nat (nat (- i)) else show_nat (nat i))"

text \<open>
  The database driver's conversion of a query parameter to text (\<^verbatim>\<open>prepareValue\<close>):
  \<^verbatim>\<open>undefined\<close> and \<^verbatim>\<open>null\<close> become SQL NULL, everything else its \<^verbatim>\<open>toString()\<close>.
\<close>

fun prepareValue :: "js \<Rightarrow> string option" where
  "prepareValue None = None"
| "prepareValue (Some JNull) = None"
| "prepareValue (Some (JBool b)) = Some (if b then ''true'' else ''false'')"
| "prepareValue (Some (JNum n)) = Some (show_int n)"
| "prepareValue (Some (JStr s)) = Some s"


section \<open>The relational store (database.sql)\<close>

text \<open>
  \<^verbatim>\<open>
  CREATE TABLE "users" (
      id SERIAL PRIMARY KEY,
      username VARCHAR(255) UNIQUE NOT NULL,
      password_hash VARCHAR(255) NOT NULL
  );
  CREATE TABLE "user_profiles" (
      user_id INT NOT NULL,
      display_name VARCHAR(255) DEFAULT 'No name set yet.',
      bio VARCHAR(255) DEFAULT 'No bio set yet.',
      FOREIGN KEY (user_id) REFERENCES "users"(id) ON DELETE CASCADE
  );
  \<close>
  A table is the list of its rows in insertion order. The columns \<open>display_name\<close> and
  \<open>bio\<close> are nullable. The sequence behind \<open>SERIAL\<close> is part of the state.
\<close>

record users_row =
  users_id :: int
  username :: string
  password_hash :: string

record user_profiles_row =
  user_id :: int
  display_name :: "string option"
  bio :: "string option"

datatype column = Display_name | Bio

text \<open>
  The SQL statements that occur in the handlers, with their \<open>$n\<close> placeholders.
  The text of the update statement is assembled at run time: it is kept as the list of
  its \<open>column = $n\<close> assignments and the placeholder of its \<open>WHERE user_id = $n\<close>.
\<close>

datatype sql =
    Select_users_by_username
  | Insert_users
  | Insert_user_profiles
  | Update_user_profiles "(column \<times> nat) list" nat
  | Delete_users

datatype db_error =
    ConnectionError
  | SyntaxError
  | ProtocolViolation
  | NotNullViolation
  | UniqueViolation
  | ForeignKeyViolation
  | StringDataRightTruncation
  | InvalidTextRepresentation
  | CharacterNotInRepertoire

record query_result =
  rows :: "users_row list"
  rowCount :: nat

text \<open>The calls a handler makes to its collaborators, in order.\<close>

datatype call =
    PoolQuery sql
  | BcryptGenSalt
  | BcryptHash
  | BcryptCompare
  | JwtSign
  | JwtVerify

text \<open>
  The world a request runs in: the two tables, the sequence of \<open>users.id\<close>, the
  availability of the store for the queries still to come (\<open>True\<close>: the next query is
  rejected before it reaches the store) and the log of calls made so far.
\<close>

record world =
  users :: "users_row list"
  user_profiles :: "user_profiles_row list"
  users_id_seq :: int
  outages :: "bool list"
  log :: "call list"

text \<open>
  Assignment to a \<open>VARCHAR(255)\<close> column: a longer string is an error unless the
  excess is all spaces, in which case it is cut to 255 characters.
\<close>

definition varchar255 :: "string \<Rightarrow> string option" where
  "varchar255 s =
     (if length s \<le> 255 then Some s
      else if list_all (\<lambda>c. c = CHR '' '') (drop 255 s) then Some (take 255 s)
      else None)"

text \<open>
  A parameter read as text. The store rejects text that contains the character U+0000
  when the parameters are bound, before the statement runs.
\<close>

definition pg_text :: "js \<Rightarrow> db_error + string option" where
  "pg_text v =
     (case prepareValue v of
        None \<Rightarrow> Inr None
      | Some s \<Rightarrow> if CHR 0x00 \<in> set s then Inl CharacterNotInRepertoire else Inr (Some s))"

definition pg_varchar :: "js \<Rightarrow> db_error + string option" where
  "pg_varchar v =
     (case pg_text v of
        Inl e \<Rightarrow> Inl e
      | Inr None \<Rightarrow> Inr None
      | Inr (Some s) \<Rightarrow>
          (case varchar255 s of
             None \<Rightarrow> Inl StringDataRightTruncation
           | Some t \<Rightarrow> Inr (Some t)))"

text \<open>
  A parameter compared with or stored in an integer column. The handlers bind only
  numbers there (\<^verbatim>\<open>req.user_id\<close>, \<^verbatim>\<open>newUser.rows[0].id\<close>); text in that position
  is reported as an error without being parsed.
\<close>

fun pg_int :: "js \<Rightarrow> db_error + int option" where
  "pg_int None = Inr None"
| "pg_int (Some JNull) = Inr None"
| "pg_int (Some (JNum n)) = Inr (Some n)"
| "pg_int (Some (JBool b)) = Inl InvalidTextRepresentation"
| "pg_int (Some (JStr s)) = Inl InvalidTextRepresentation"

definition bind_param :: "js list \<Rightarrow> nat \<Rightarrow> js option" where
  "bind_param vals i = (if 1 \<le> i \<and> i \<le> length vals then Some (vals ! (i - 1)) else None)"

text \<open>
  \<^verbatim>\<open>SELECT * FROM users WHERE username = $1\<close>. A parameter the store cannot read as
  text is an error; a NULL parameter matches no row.
\<close>

definition select_users_by_username :: "js \<Rightarrow> world \<Rightarrow> (db_error + query_result) \<times> world" where
  "select_users_by_username u w =
     (case pg_text u of
        Inl e \<Rightarrow> (Inl e, w)
      | Inr t \<Rightarrow>
          (let found = filter (\<lambda>r. t = Some (username r)) (users w)
           in (Inr \<lparr>rows = found, rowCount = length found\<rparr>, w)))"

text \<open>
  \<^verbatim>\<open>INSERT INTO users (username, password_hash) VALUES ($1, $2) RETURNING *\<close>.
  A parameter that the store cannot take as a value of its column is refused before
  the row is built. After that the default of \<open>id\<close> takes the next value of the sequence,
  which stays taken when a constraint then rejects the row.
\<close>

definition insert_users :: "js \<Rightarrow> js \<Rightarrow> world \<Rightarrow> (db_error + query_result) \<times> world" where
  "insert_users u h w =
     (case pg_varchar u of
        Inl e \<Rightarrow> (Inl e, w)
      | Inr username_value \<Rightarrow>
          (case pg_varchar h of
             Inl e \<Rightarrow> (Inl e, w)
           | Inr hash_value \<Rightarrow>
               (let i = users_id_seq w + 1; w1 = w\<lparr>users_id_seq := i\<rparr> in
                case (username_value, hash_value) of
                  (Some un, Some ph) \<Rightarrow>
                    if i \<in> set (map users_id (users w)) then (Inl UniqueViolation, w1)
                    else if un \<in> set (map username (users w)) then (Inl UniqueViolation, w1)
                    else
                      (let r = \<lparr>users_id = i, username = un, password_hash = ph\<rparr>
                       in (Inr \<lparr>rows = [r], rowCount = 1\<rparr>, w1\<lparr>users := users w @ [r]\<rparr>))
                | _ \<Rightarrow> (Inl NotNullViolation, w1))))"

text \<open>
  \<^verbatim>\<open>INSERT INTO user_profiles (user_id) VALUES ($1)\<close>: the other two columns take
  their defaults from the schema.
\<close>

definition insert_user_profiles :: "js \<Rightarrow> world \<Rightarrow> (db_error + query_result) \<times> world" where
  "insert_user_profiles v w =
     (case pg_int v of
        Inl e \<Rightarrow> (Inl e, w)
      | Inr None \<Rightarrow> (Inl NotNullViolation, w)
      | Inr (Some uid) \<Rightarrow>
          if uid \<in> set (map users_id (users w)) then
            (Inr \<lparr>rows = [], rowCount = 1\<rparr>,
             w\<lparr>user_profiles := user_profiles w @
                  [\<lparr>user_id = uid,
                    display_name = Some ''No name set yet.'',
                    bio = Some ''No bio set yet.''\<rparr>]\<rparr>)
          else (Inl ForeignKeyViolation, w))"

text \<open>
  \<^verbatim>\<open>UPDATE user_profiles SET <assignments> WHERE user_id = $n\<close>. An empty list of
  assignments is not a statement of the SQL grammar, and a column may be assigned once.
\<close>

fun assign :: "user_profiles_row \<Rightarrow> column \<times> string option \<Rightarrow> user_profiles_row" where
  "assign p (Display_name, v) = p\<lparr>display_name := v\<rparr>"
| "assign p (Bio, v) = p\<lparr>bio := v\<rparr>"

fun resolve_set :: "js list \<Rightarrow> (column \<times> nat) list \<Rightarrow> db_error + (column \<times> string option) list" where
  "resolve_set vals [] = Inr []"
| "resolve_set vals ((c, i) # cs) =
     (case bind_param vals i of
        None \<Rightarrow> Inl ProtocolViolation
      | Some v \<Rightarrow>
          (case pg_varchar v of
             Inl e \<Rightarrow> Inl e
           | Inr t \<Rightarrow>
               (case resolve_set vals cs of
                  Inl e \<Rightarrow> Inl e
                | Inr ts \<Rightarrow> Inr ((c, t) # ts))))"

definition update_user_profiles ::
  "(column \<times> nat) list \<Rightarrow> nat \<Rightarrow> js list \<Rightarrow> world \<Rightarrow> (db_error + query_result) \<times> world" where
  "update_user_profiles setClause whereParam vals w =
     (if setClause = [] then (Inl SyntaxError, w)
      else if \<not> distinct (map fst setClause) then (Inl SyntaxError, w)
      else
        case resolve_set vals setClause of
          Inl e \<Rightarrow> (Inl e, w)
        | Inr assignments \<Rightarrow>
            (case bind_param vals whereParam of
               None \<Rightarrow> (Inl ProtocolViolation, w)
             | Some v \<Rightarrow>
                 (case pg_int v of
                    Inl e \<Rightarrow> (Inl e, w)
                  | Inr key \<Rightarrow>
                      (Inr \<lparr>rows = [],
                            rowCount = length (filter (\<lambda>p. key = Some (user_id p)) (user_profiles w))\<rparr>,
                       w\<lparr>user_profiles :=
                            map (\<lambda>p. if key = Some (user_id p) then foldl assign p assignments else p)
                              (user_profiles w)\<rparr>))))"

text \<open>
  \<^verbatim>\<open>DELETE FROM users WHERE id = $1\<close>, with the cascade of the foreign key: the
  profile rows of a deleted user go with it.
\<close>

definition delete_users :: "js \<Rightarrow> world \<Rightarrow> (db_error + query_result) \<times> world" where
  "delete_users v w =
     (case pg_int v of
        Inl e \<Rightarrow> (Inl e, w)
      | Inr key \<Rightarrow>
          (let deleted = filter (\<lambda>r. key = Some (users_id r)) (users w) in
           (Inr \<lparr>rows = [], rowCount = length deleted\<rparr>,
            w\<lparr>users := filter (\<lambda>r. key \<noteq> Some (users_id r)) (users w),
              user_profiles :=
                filter (\<lambda>p. user_id p \<notin> set (map users_id deleted)) (user_profiles w)\<rparr>)))"

definition exec :: "sql \<Rightarrow> js list \<Rightarrow> world \<Rightarrow> (db_error + query_result) \<times> world" where
  "exec q vals w =
     (case q of
        Select_users_by_username \<Rightarrow>
          (case vals of [u] \<Rightarrow> select_users_by_username u w | _ \<Rightarrow> (Inl ProtocolViolation, w))
      | Insert_users \<Rightarrow>
          (case vals of [u, h] \<Rightarrow> insert_users u h w | _ \<Rightarrow> (Inl ProtocolViolation, w))
      | Insert_user_profiles \<Rightarrow>
          (case vals of [v] \<Rightarrow> insert_user_profiles v w | _ \<Rightarrow> (Inl ProtocolViolation, w))
      | Update_user_profiles setClause whereParam \<Rightarrow>
          update_user_profiles setClause whereParam vals w
      | Delete_users \<Rightarrow>
          (case vals of [v] \<Rightarrow> delete_users v w | _ \<Rightarrow> (Inl ProtocolViolation, w)))"

text \<open>
  \<^verbatim>\<open>pool.query(text, values)\<close>: the call is logged; when the store is unreachable the
  promise is rejected and the tables are untouched, otherwise the statement runs.
\<close>

definition pool_query :: "sql \<Rightarrow> js list \<Rightarrow> world \<Rightarrow> (db_error + query_result) \<times> world" where
  "pool_query q vals w =
     (let w1 = w\<lparr>outages := tl (outages w), log := log w @ [PoolQuery q]\<rparr> in
      case outages w of
        True # rest \<Rightarrow> (Inl ConnectionError, w1)
      | _ \<Rightarrow> exec q vals w1)"


section \<open>The Token Codec\<close>

text \<open>
  A session token carries the subject's user id, the time of issue and the absolute
  expiry, in seconds. The value of the \<^verbatim>\<open>auth_token\<close> cookie is a string; it is modelled
  by what it decodes to: \<open>Jws p s\<close> is the compact serialisation of the payload \<open>p\<close> with
  signature \<open>s\<close>, \<open>Other t\<close> is any text \<open>t\<close> that is not such a serialisation (the empty
  string among them).
\<close>

record jwt_payload =
  id_claim :: int
  iat_claim :: int
  exp_claim :: int

datatype token_string = Jws jwt_payload string | Other string

datatype verification_error = SignatureInvalid | Expired

text \<open>
  Modelled from the spec: the Token Codec of section 4.2, which the repository takes from
  the jsonwebtoken package (\<^verbatim>\<open>jwt.sign\<close>, \<^verbatim>\<open>jwt.verify\<close>) and which is not among its
  source files. \<open>issue(subject_id, ttl_seconds)\<close> "produces a signed, self-describing token
  embedding \<open>{id: subject_id}\<close> and an absolute expiry computed as now + ttl". The keyed
  signature function \<open>mac\<close>, the secret and the clock are parameters.
\<close>

definition jwt_sign :: "(string \<Rightarrow> jwt_payload \<Rightarrow> string) \<Rightarrow> string \<Rightarrow> int \<Rightarrow> int \<Rightarrow> int \<Rightarrow> token_string" where
  "jwt_sign mac secret now subject_id expiresIn =
     (let payload = \<lparr>id_claim = subject_id, iat_claim = now, exp_claim = now + expiresIn\<rparr>
      in Jws payload (mac secret payload))"

text \<open>
  Modelled from the spec: \<open>verify(token_string)\<close> of section 4.2 "checks signature
  authenticity against the process secret and checks the expiry against current time",
  with the errors \<open>SignatureInvalid\<close> ("wrong/missing secret, tampered payload, or
  structurally malformed token") and \<open>Expired\<close> ("well-formed but past expiry"); by
  section 3 the token is valid when "the current time is before its expiry". The result
  is the decoded payload, of which the gate reads \<^verbatim>\<open>decoded.id\<close>.
\<close>

definition jwt_verify :: "(string \<Rightarrow> jwt_payload \<Rightarrow> string) \<Rightarrow> string \<Rightarrow> int \<Rightarrow> token_string \<Rightarrow> verification_error + jwt_payload" where
  "jwt_verify mac secret now token =
     (case token of
        Other t \<Rightarrow> Inl SignatureInvalid
      | Jws payload signature \<Rightarrow>
          if signature \<noteq> mac secret payload then Inl SignatureInvalid
          else if now < exp_claim payload then Inr payload
          else Inl Expired)"


section \<open>Requests, responses and the environment\<close>

record request =
  cookies :: "string \<Rightarrow> token_string option"
  body :: "string \<Rightarrow> js"
  req_user_id :: "int option"

record cookie_options =
  httpOnly :: bool
  secure :: bool
  sameSite :: "string option"
  maxAge :: "int option"

datatype cookie_instruction =
    Cookie string token_string cookie_options
  | ClearCookie string cookie_options

record response =
  status :: nat
  json_body :: "(string \<times> json) list"
  set_cookies :: "cookie_instruction list"

text \<open>
  What a request finds around it: \<^verbatim>\<open>process.env\<close>, the clock in seconds, the salt that
  \<^verbatim>\<open>bcrypt.genSalt\<close> draws, and the keyed functions of the two packages.
\<close>

record env =
  JWT_SECRET :: string
  NODE_ENV :: "string option"
  date_now :: int
  random_salt :: string
  hmac :: "string \<Rightarrow> jwt_payload \<Rightarrow> string"
  bcrypt_digest :: "string \<Rightarrow> string \<Rightarrow> string"
  bcrypt_matches :: "string \<Rightarrow> string \<Rightarrow> bool"

datatype bcrypt_error = IllegalArguments

text \<open>
  \<^verbatim>\<open>bcrypt.hash(s, salt)\<close> and \<^verbatim>\<open>bcrypt.compare(s, hash)\<close> reject with "Illegal
  arguments" when \<open>s\<close> is not a string.
\<close>

fun bcrypt_hash :: "env \<Rightarrow> js \<Rightarrow> string \<Rightarrow> bcrypt_error + string" where
  "bcrypt_hash E (Some (JStr s)) salt = Inr (bcrypt_digest E s salt)"
| "bcrypt_hash E _ salt = Inl IllegalArguments"

fun bcrypt_compare :: "env \<Rightarrow> js \<Rightarrow> string \<Rightarrow> bcrypt_error + bool" where
  "bcrypt_compare E (Some (JStr s)) hash = Inr (bcrypt_matches E s hash)"
| "bcrypt_compare E _ hash = Inl IllegalArguments"

definition logged :: "call \<Rightarrow> world \<Rightarrow> world" where
  "logged c w = w\<lparr>log := log w @ [c]\<rparr>"

definition json_response :: "nat \<Rightarrow> (string \<times> json) list \<Rightarrow> cookie_instruction list \<Rightarrow> response" where
  "json_response code obj cs = \<lparr>status = code, json_body = obj, set_cookies = cs\<rparr>"


section \<open>middleware/jwtMiddleware.js\<close>

text \<open>
  The gate either answers the request itself or calls \<^verbatim>\<open>next()\<close> with the request it
  has written \<^verbatim>\<open>req.user_id\<close> into. \<^verbatim>\<open>!token\<close> holds when the cookie is missing and
  when its value is the empty string.
\<close>

datatype gate = Responded response | Next request

definition authenticateJWT :: "env \<Rightarrow> world \<Rightarrow> request \<Rightarrow> gate \<times> world" where
  "authenticateJWT E w req =
     (case cookies req ''auth_token'' of
        None \<Rightarrow>
          (Responded (json_response 401
             [(''success'', JBool False), (''message'', JStr ''Access Denied: No token provided'')] []), w)
      | Some token \<Rightarrow>
          if token = Other [] then
            (Responded (json_response 401
               [(''success'', JBool False), (''message'', JStr ''Access Denied: No token provided'')] []), w)
          else
            (case jwt_verify (hmac E) (JWT_SECRET E) (date_now E) token of
               Inl err \<Rightarrow>
                 (Responded (json_response 403
                    [(''success'', JBool False), (''message'', JStr ''Forbidden: Invalid token'')] []),
                  logged JwtVerify w)
             | Inr decoded \<Rightarrow>
                 (Next (req\<lparr>req_user_id := Some (id_claim decoded)\<rparr>), logged JwtVerify w)))"

text \<open>A route \<^verbatim>\<open>router.METHOD(path, authenticateJWT, handler)\<close>.\<close>

definition protected :: "(env \<Rightarrow> world \<Rightarrow> request \<Rightarrow> response \<times> world) \<Rightarrow> env \<Rightarrow> world \<Rightarrow> request \<Rightarrow> response \<times> world" where
  "protected handler E w req =
     (case authenticateJWT E w req of
        (Responded res, w1) \<Rightarrow> (res, w1)
      | (Next req1, w1) \<Rightarrow> handler E w1 req1)"


section \<open>routes/auth.js\<close>

definition issuance_options :: "env \<Rightarrow> cookie_options" where
  "issuance_options E =
     \<lparr>httpOnly = True, secure = (NODE_ENV E = Some ''production''),
      sameSite = None, maxAge = Some 1800000\<rparr>"

definition server_error :: response where
  "server_error = json_response 500 [(''error'', JStr ''Server error'')] []"

text \<open>\<^verbatim>\<open>POST /auth/register\<close>\<close>

definition post_register :: "env \<Rightarrow> world \<Rightarrow> request \<Rightarrow> response \<times> world" where
  "post_register E w req =
     (let username = body req ''username''; password = body req ''password'' in
      case pool_query Select_users_by_username [username] w of
        (Inl err, w1) \<Rightarrow> (server_error, w1)
      | (Inr user, w1) \<Rightarrow>
          if length (rows user) > 0 then
            (json_response 409
               [(''success'', JBool False),
                (''message'', JStr ''Username is already in use. Please choose a different one.'')] [],
             w1)
          else
            (let salt = random_salt E; w2 = logged BcryptGenSalt w1 in
             case bcrypt_hash E password salt of
               Inl err \<Rightarrow> (server_error, logged BcryptHash w2)
             | Inr hashed \<Rightarrow>
                 (case pool_query Insert_users [username, Some (JStr hashed)] (logged BcryptHash w2) of
                    (Inl err, w3) \<Rightarrow> (server_error, w3)
                  | (Inr newUser, w3) \<Rightarrow>
                      (case rows newUser of
                         [] \<Rightarrow> (server_error, w3)
                       | newUser0 # _ \<Rightarrow>
                           (case pool_query Insert_user_profiles [Some (JNum (users_id newUser0))] w3 of
                              (Inl err, w4) \<Rightarrow> (server_error, w4)
                            | (Inr _, w4) \<Rightarrow>
                                (let token = jwt_sign (hmac E) (JWT_SECRET E) (date_now E)
                                               (users_id newUser0) 1800
                                 in (json_response 201
                                       [(''success'', JBool True), (''redirect'', JStr ''/profile'')]
                                       [Cookie ''auth_token'' token (issuance_options E)],
                                     logged JwtSign w4)))))))"

text \<open>\<^verbatim>\<open>POST /auth/login\<close>\<close>

definition post_login :: "env \<Rightarrow> world \<Rightarrow> request \<Rightarrow> response \<times> world" where
  "post_login E w req =
     (let username = body req ''username''; password = body req ''password'' in
      case pool_query Select_users_by_username [username] w of
        (Inl err, w1) \<Rightarrow> (server_error, w1)
      | (Inr user, w1) \<Rightarrow>
          (case rows user of
             [] \<Rightarrow>
               (json_response 401
                  [(''success'', JBool False),
                   (''message'', JStr ''Username and/or password is incorrect.'')] [],
                w1)
           | user0 # _ \<Rightarrow>
               (case bcrypt_compare E password (password_hash user0) of
                  Inl err \<Rightarrow> (server_error, logged BcryptCompare w1)
                | Inr validPassword \<Rightarrow>
                    if \<not> validPassword then
                      (json_response 401
                         [(''success'', JBool False),
                          (''message'', JStr ''Username and/or password is incorrect.'')] [],
                       logged BcryptCompare w1)
                    else
                      (let token = jwt_sign (hmac E) (JWT_SECRET E) (date_now E) (users_id user0) 1800
                       in (json_response 200
                             [(''success'', JBool True), (''redirect'', JStr ''/profile'')]
                             [Cookie ''auth_token'' token (issuance_options E)],
                           logged JwtSign (logged BcryptCompare w1))))))"

text \<open>\<^verbatim>\<open>GET /auth/validate\<close>, behind the gate.\<close>

definition get_validate :: "env \<Rightarrow> world \<Rightarrow> request \<Rightarrow> response \<times> world" where
  "get_validate E w req = (json_response 200 [(''tokenIsValid'', JBool True)] [], w)"

text \<open>\<^verbatim>\<open>POST /auth/logout\<close>\<close>

definition post_logout :: "env \<Rightarrow> world \<Rightarrow> request \<Rightarrow> response \<times> world" where
  "post_logout E w req =
     (json_response 200 [(''success'', JBool True)]
        [ClearCookie ''auth_token''
           \<lparr>httpOnly = True, secure = (NODE_ENV E = Some ''production''),
            sameSite = Some ''strict'', maxAge = None\<rparr>],
      w)"


section \<open>routes/profile.js\<close>

definition profile_error :: response where
  "profile_error =
     json_response 500
       [(''success'', JBool False),
        (''message'', JStr ''An error has occurred. Please try again later.'')] []"

text \<open>
  \<^verbatim>\<open>PUT /profile/update\<close>, behind the gate. The three mutable locals \<^verbatim>\<open>setClause\<close>,
  \<^verbatim>\<open>values\<close> and \<^verbatim>\<open>element\<close> are threaded through the two conditionals.
\<close>

definition put_update :: "env \<Rightarrow> world \<Rightarrow> request \<Rightarrow> response \<times> world" where
  "put_update E w req =
     (let user_id = map_option JNum (req_user_id req);
          displayName = body req ''displayName'';
          bio = body req ''bio'';
          setClause0 = [];
          values0 = [];
          element0 = 1;
          (setClause1, values1, element1) =
            (if truthy displayName then
               (setClause0 @ [(Display_name, element0)], values0 @ [displayName], element0 + 1)
             else (setClause0, values0, element0));
          (setClause2, values2, element2) =
            (if truthy bio then (setClause1 @ [(Bio, element1)], values1 @ [bio], element1 + 1)
             else (setClause1, values1, element1));
          whereClause = element2;
          values3 = values2 @ [user_id]
      in case pool_query (Update_user_profiles setClause2 whereClause) values3 w of
           (Inl err, w1) \<Rightarrow> (profile_error, w1)
         | (Inr updateProfile, w1) \<Rightarrow>
             if rowCount updateProfile = 0 then
               (json_response 300
                  [(''success'', JBool False), (''message'', JStr ''Profile could not be updated.'')] [],
                w1)
             else
               (json_response 200
                  [(''success'', JBool True), (''message'', JStr ''Profile updated.'')] [],
                w1))"

text \<open>\<^verbatim>\<open>DELETE /profile/delete\<close>, behind the gate.\<close>

definition delete_delete :: "env \<Rightarrow> world \<Rightarrow> request \<Rightarrow> response \<times> world" where
  "delete_delete E w req =
     (let user_id = map_option JNum (req_user_id req) in
      case pool_query Delete_users [user_id] w of
        (Inl err, w1) \<Rightarrow> (profile_error, w1)
      | (Inr deleteUser, w1) \<Rightarrow>
          if rowCount deleteUser = 0 then
            (json_response 404
               [(''success'', JBool False), (''message'', JStr ''User to delete not found.'')] [],
             w1)
          else
            (json_response 200
               [(''success'', JBool True), (''message'', JStr ''User deleted.''),
                (''redirect'', JStr ''/'')] [],
             w1))"


section \<open>Predicates on the world\<close>

text \<open>The next query reaches the store.\<close>

definition answers :: "world \<Rightarrow> bool" where
  "answers w = (case outages w of True # rest \<Rightarrow> False | _ \<Rightarrow> True)"

text \<open>Every row of \<open>users\<close> has a row of \<open>user_profiles\<close> that refers to it.\<close>

definition every_user_has_profile :: "world \<Rightarrow> bool" where
  "every_user_has_profile w =
     list_all (\<lambda>u. users_id u \<in> set (map user_id (user_profiles w))) (users w)"


section \<open>A concrete deployment\<close>

text \<open>
  One environment, one store with a single registered user, and the request that carries
  nothing; the examples below are built from them.
\<close>

definition env0 :: env where
  "env0 =
     \<lparr>JWT_SECRET = ''s3cret'', NODE_ENV = None, date_now = 1000, random_salt = ''salt'',
      hmac = (\<lambda>k p. k @ show_int (id_claim p)),
      bcrypt_digest = (\<lambda>s salt. salt @ s),
      bcrypt_matches = (\<lambda>s h. h = ''salt'' @ s)\<rparr>"

definition world0 :: world where
  "world0 =
     \<lparr>users = [\<lparr>users_id = 1, username = ''alice'', password_hash = ''saltpw1''\<rparr>],
      user_profiles =
        [\<lparr>user_id = 1, display_name = Some ''No name set yet.'', bio = Some ''No bio set yet.''\<rparr>],
      users_id_seq = 1, outages = [], log = []\<rparr>"

definition request0 :: request where
  "request0 = \<lparr>cookies = (\<lambda>name. None), body = (\<lambda>field. None), req_user_id = None\<rparr>"

text \<open>A token issued to user 1 at time 900, so still valid at the time of \<open>env0\<close>.\<close>

definition token0 :: token_string where
  "token0 = jwt_sign (hmac env0) (JWT_SECRET env0) 900 1 1800"



text \<open>The registration of a new user, bob.\<close>

definition register_bob :: request where
  "register_bob =
     request0\<lparr>body := [''username'' \<mapsto> JStr ''bob'', ''password'' \<mapsto> JStr ''pw2'']\<rparr>"

text \<open>
  A profile update sent with the token of user 1: an empty display name and a new bio.
\<close>

definition update_bio :: request where
  "update_bio =
     request0\<lparr>cookies := [''auth_token'' \<mapsto> token0],
              body := [''displayName'' \<mapsto> JStr [], ''bio'' \<mapsto> JStr ''hi'']\<rparr>"


section \<open>Facts about the store\<close>

lemma pool_query_answers:
  "answers w \<Longrightarrow>
   pool_query q vals w = exec q vals (w\<lparr>outages := tl (outages w), log := log w @ [PoolQuery q]\<rparr>)"
  by (auto simp add: pool_query_def answers_def Let_def split: list.splits bool.splits)

lemma pool_query_cases:
  "pool_query q vals w = (r, w') \<Longrightarrow>
     (r = Inl ConnectionError \<and> (\<exists>rest. outages w = True # rest)
        \<and> w' = w\<lparr>outages := tl (outages w), log := log w @ [PoolQuery q]\<rparr>)
   \<or> (answers w \<and> exec q vals (w\<lparr>outages := tl (outages w), log := log w @ [PoolQuery q]\<rparr>) = (r, w'))"
  by (auto simp add: pool_query_def answers_def Let_def split: list.splits bool.splits)

lemma pool_query_select:
  "answers w \<Longrightarrow> pg_text u = Inr t \<Longrightarrow>
   pool_query Select_users_by_username [u] w =
     (Inr \<lparr>rows = filter (\<lambda>r. t = Some (username r)) (users w),
           rowCount = length (filter (\<lambda>r. t = Some (username r)) (users w))\<rparr>,
      w\<lparr>outages := tl (outages w), log := log w @ [PoolQuery Select_users_by_username]\<rparr>)"
  by (simp add: pool_query_answers exec_def select_users_by_username_def Let_def)

lemma exec_select:
  "exec Select_users_by_username [u] w = (r, w') \<Longrightarrow> w' = w"
  by (auto simp add: exec_def select_users_by_username_def Let_def split: sum.splits)

lemma insert_users_cases:
  "insert_users u h w = (r, w') \<Longrightarrow>
     ((\<exists>e. r = Inl e) \<and> (w' = w \<or> w' = w\<lparr>users_id_seq := users_id_seq w + 1\<rparr>))
   \<or> (\<exists>row un. r = Inr \<lparr>rows = [row], rowCount = 1\<rparr>
        \<and> users_id row = users_id_seq w + 1
        \<and> pg_varchar u = Inr (Some (username row))
        \<and> pg_varchar h = Inr (Some (password_hash row))
        \<and> username row \<notin> set (map username (users w))
        \<and> w' = w\<lparr>users_id_seq := users_id_seq w + 1, users := users w @ [row]\<rparr>)"
  by (auto simp add: insert_users_def Let_def split: sum.splits option.splits if_splits prod.splits)

lemma insert_user_profiles_cases:
  "insert_user_profiles (Some (JNum i)) w = (r, w') \<Longrightarrow>
     ((\<exists>e. r = Inl e) \<and> w' = w \<and> i \<notin> set (map users_id (users w)))
   \<or> (r = Inr \<lparr>rows = [], rowCount = 1\<rparr> \<and> i \<in> set (map users_id (users w))
        \<and> w' = w\<lparr>user_profiles := user_profiles w @
              [\<lparr>user_id = i, display_name = Some ''No name set yet.'', bio = Some ''No bio set yet.''\<rparr>]\<rparr>)"
  by (auto simp add: insert_user_profiles_def split: if_splits)

lemma pool_query_delete:
  assumes a: "answers w" and k: "key \<notin> set (map users_id (users w))"
  shows "pool_query Delete_users [Some (JNum key)] w =
     (Inr \<lparr>rows = [], rowCount = 0\<rparr>,
      w\<lparr>outages := tl (outages w), log := log w @ [PoolQuery Delete_users]\<rparr>)"
proof -
  from k have 1: "filter (\<lambda>r. key = users_id r) (users w) = []"
    by (auto simp add: filter_empty_conv)
  from k have 2: "filter (\<lambda>r. key \<noteq> users_id r) (users w) = users w"
    by (auto simp add: filter_id_conv)
  show ?thesis
    using a by (simp add: pool_query_answers exec_def delete_users_def 1 2 Let_def)
qed

lemma every_user_has_profile_append:
  "every_user_has_profile w \<Longrightarrow> users w' = users w @ [row] \<Longrightarrow>
   user_profiles w' = user_profiles w @ [p] \<Longrightarrow> user_id p = users_id row \<Longrightarrow>
   every_user_has_profile w'"
  by (auto simp add: every_user_has_profile_def list_all_iff)

lemma every_user_has_profile_same:
  "every_user_has_profile w \<Longrightarrow> users w' = users w \<Longrightarrow>
   user_profiles w' = user_profiles w \<Longrightarrow> every_user_has_profile w'"
  by (simp add: every_user_has_profile_def)

text \<open>Assignments leave \<open>user_id\<close> alone, and a column that is not assigned keeps its value.\<close>

lemma user_id_assign: "user_id (assign p a) = user_id p"
  by (cases "(p, a)" rule: assign.cases) simp_all

lemma user_id_foldl_assign: "user_id (foldl assign p as) = user_id p"
  by (induction as arbitrary: p) (simp_all add: user_id_assign)

lemma display_name_foldl_assign:
  "Display_name \<notin> fst ` set as \<Longrightarrow> display_name (foldl assign p as) = display_name p"
proof (induction as arbitrary: p)
  case Nil
  then show ?case by simp
next
  case (Cons a as)
  then show ?case by (cases "(p, a)" rule: assign.cases) auto
qed

lemma bio_foldl_assign:
  "Bio \<notin> fst ` set as \<Longrightarrow> bio (foldl assign p as) = bio p"
proof (induction as arbitrary: p)
  case Nil
  then show ?case by simp
next
  case (Cons a as)
  then show ?case by (cases "(p, a)" rule: assign.cases) auto
qed

lemma assign_nonempty:
  "snd a \<noteq> Some [] \<Longrightarrow>
   (display_name (assign p a) = Some [] \<longrightarrow> display_name p = Some [])
   \<and> (bio (assign p a) = Some [] \<longrightarrow> bio p = Some [])"
  by (cases "(p, a)" rule: assign.cases) auto

lemma nonempty_foldl_assign:
  "\<forall>a \<in> set as. snd a \<noteq> Some [] \<Longrightarrow>
   (display_name (foldl assign p as) = Some [] \<longrightarrow> display_name p = Some [])
   \<and> (bio (foldl assign p as) = Some [] \<longrightarrow> bio p = Some [])"
proof (induction as arbitrary: p)
  case Nil
  then show ?case by simp
next
  case (Cons a as)
  from Cons.prems have "snd a \<noteq> Some []" and "\<forall>a \<in> set as. snd a \<noteq> Some []"
    by simp_all
  with Cons.IH [of "assign p a"] assign_nonempty [of a p] show ?case
    by simp
qed

text \<open>The text the driver sends for a truthy value is never empty.\<close>

lemma show_nat_nonempty: "show_nat n \<noteq> []"
  by (subst show_nat.simps) simp

lemma show_int_nonempty: "show_int i \<noteq> []"
  by (simp add: show_int_def show_nat_nonempty)

lemma varchar255_nonempty: "varchar255 s = Some t \<Longrightarrow> s \<noteq> [] \<Longrightarrow> t \<noteq> []"
  by (auto simp add: varchar255_def split: if_splits)

lemma pg_varchar_truthy: "truthy v \<Longrightarrow> pg_varchar v = Inr t \<Longrightarrow> t \<noteq> Some []"
  by (cases v rule: truthy.cases)
     (auto simp add: pg_varchar_def pg_text_def show_int_nonempty split: option.splits if_splits
           dest: varchar255_nonempty)

lemma pg_int_user_id: "pg_int (map_option JNum x) = Inr x"
  by (cases x) simp_all

lemma resolve_set_columns: "resolve_set vals sc = Inr as \<Longrightarrow> map fst as = map fst sc"
  by (induction vals sc arbitrary: as rule: resolve_set.induct)
     (auto split: option.splits sum.splits)

lemma resolve_set_truthy:
  "resolve_set vals sc = Inr as \<Longrightarrow>
   \<forall>a \<in> set sc. \<exists>v. bind_param vals (snd a) = Some v \<and> truthy v \<Longrightarrow>
   \<forall>a \<in> set as. snd a \<noteq> Some []"
proof (induction sc arbitrary: as)
  case Nil
  then show ?case by simp
next
  case (Cons a sc)
  obtain c i where a: "a = (c, i)" by (cases a)
  from Cons.prems(2) a obtain v where v: "bind_param vals i = Some v" "truthy v"
    by auto
  from Cons.prems(1) a v obtain t ts where
    t: "pg_varchar v = Inr t" "resolve_set vals sc = Inr ts" "as = (c, t) # ts"
    by (auto split: sum.splits)
  from Cons.IH [OF t(2)] Cons.prems(2) have "\<forall>a \<in> set ts. snd a \<noteq> Some []"
    by simp
  with pg_varchar_truthy [OF v(2) t(1)] t(3) show ?case
    by simp
qed

text \<open>What one update statement can do to the world.\<close>

lemma pool_query_update_cases:
  assumes "pool_query (Update_user_profiles sc n) vals w = (r, w')"
  shows "users w' = users w \<and> users_id_seq w' = users_id_seq w
         \<and> log w' = log w @ [PoolQuery (Update_user_profiles sc n)]
         \<and> (user_profiles w' = user_profiles w
            \<or> (\<exists>as v key. resolve_set vals sc = Inr as \<and> bind_param vals n = Some v
                 \<and> pg_int v = Inr key
                 \<and> user_profiles w' =
                     map (\<lambda>p. if key = Some (user_id p) then foldl assign p as else p)
                       (user_profiles w)))"
  using pool_query_cases [OF assms]
  by (auto simp add: exec_def update_user_profiles_def split: if_splits sum.splits option.splits)


section \<open>Facts about the examples\<close>

lemma answers_world0: "answers world0"
  by (simp add: answers_def world0_def)

lemma verify_token0:
  "jwt_verify (hmac env0) (JWT_SECRET env0) (date_now env0) token0 =
     Inr \<lparr>id_claim = 1, iat_claim = 900, exp_claim = 2700\<rparr>"
  by (simp add: token0_def jwt_sign_def jwt_verify_def env0_def Let_def)

lemma cookie_update_bio: "cookies update_bio ''auth_token'' = Some token0"
  by (simp add: update_bio_def)


section \<open>Facts about the handlers\<close>

lemma gate_admits:
  "cookies req ''auth_token'' = Some token \<Longrightarrow>
   jwt_verify (hmac E) (JWT_SECRET E) (date_now E) token = Inr decoded \<Longrightarrow>
   authenticateJWT E w req =
     (Next (req\<lparr>req_user_id := Some (id_claim decoded)\<rparr>), logged JwtVerify w)"
  by (auto simp add: authenticateJWT_def jwt_verify_def split: token_string.splits)

lemma issued_by_login:
  "list_all (\<lambda>c. \<exists>uid. c = Cookie ''auth_token''
        (jwt_sign (hmac E) (JWT_SECRET E) (date_now E) uid 1800) (issuance_options E))
     (set_cookies (fst (post_login E w req)))"
  by (auto simp add: post_login_def json_response_def server_error_def Let_def
        split: prod.splits sum.splits list.splits)

lemma issued_by_register:
  "list_all (\<lambda>c. \<exists>uid. c = Cookie ''auth_token''
        (jwt_sign (hmac E) (JWT_SECRET E) (date_now E) uid 1800) (issuance_options E))
     (set_cookies (fst (post_register E w req)))"
  by (auto simp add: post_register_def json_response_def server_error_def Let_def
        split: prod.splits sum.splits list.splits)

text \<open>
  The statement that \<open>PUT /profile/update\<close> sends: its last placeholder is bound to
  \<^verbatim>\<open>req.user_id\<close>, every assignment is bound to a truthy value, and a column is assigned
  exactly when its field is truthy.
\<close>

lemma put_update_query:
  obtains sc n vals where
    "snd (put_update E w req) = snd (pool_query (Update_user_profiles sc n) vals w)"
    and "bind_param vals n = Some (map_option JNum (req_user_id req))"
    and "\<forall>a \<in> set sc. \<exists>v. bind_param vals (snd a) = Some v \<and> truthy v"
    and "Display_name \<in> fst ` set sc \<longleftrightarrow> truthy (body req ''displayName'')"
    and "Bio \<in> fst ` set sc \<longleftrightarrow> truthy (body req ''bio'')"
proof -
  let ?dn = "body req ''displayName''" and ?b = "body req ''bio''"
  let ?uid = "map_option JNum (req_user_id req)"
  consider (both) "truthy ?dn" "truthy ?b" | (name) "truthy ?dn" "\<not> truthy ?b"
    | (bio) "\<not> truthy ?dn" "truthy ?b" | (none) "\<not> truthy ?dn" "\<not> truthy ?b"
    by blast
  then show thesis
  proof cases
    case both
    show thesis
      by (rule that [of "[(Display_name, 1), (Bio, 2)]" 3 "[?dn, ?b, ?uid]"])
         (auto simp add: put_update_def bind_param_def both Let_def numeral_2_eq_2 numeral_3_eq_3
            split: prod.splits sum.splits)
  next
    case name
    show thesis
      by (rule that [of "[(Display_name, 1)]" 2 "[?dn, ?uid]"])
         (auto simp add: put_update_def bind_param_def name Let_def numeral_2_eq_2
            split: prod.splits sum.splits)
  next
    case bio
    show thesis
      by (rule that [of "[(Bio, 1)]" 2 "[?b, ?uid]"])
         (auto simp add: put_update_def bind_param_def bio Let_def numeral_2_eq_2
            split: prod.splits sum.splits)
  next
    case none
    show thesis
      by (rule that [of "[]" 1 "[?uid]"])
         (auto simp add: put_update_def bind_param_def none Let_def split: prod.splits sum.splits)
  qed
qed

section \<open>The gate on protected routes\<close>

text \<open>
  C1, as the code has it. For every request to a protected route: when the request
  carries no \<open>auth_token\<close> cookie, or carries one whose value is the empty string, the gate
  answers 401 with the body \<open>{success:false, message:"Access Denied: No token provided"}\<close>
  and no verification is attempted (the world, its log included, is unchanged); when the
  cookie has a non-empty value that fails verification, whatever the error, the answer is
  403 with \<open>{success:false, message:"Forbidden: Invalid token"}\<close>; when verification
  succeeds the gate writes the decoded subject id into the request and passes it to the
  handler, so that \<open>GET /auth/validate\<close> answers 200 with \<open>{tokenIsValid:true}\<close>.
\<close>

theorem gate_decision:
  "(cookies req ''auth_token'' = None \<or> cookies req ''auth_token'' = Some (Other [])
      \<longrightarrow> authenticateJWT E w req =
            (Responded (json_response 401
               [(''success'', JBool False), (''message'', JStr ''Access Denied: No token provided'')] []), w)
          \<and> protected handler E w req =
            (json_response 401
               [(''success'', JBool False), (''message'', JStr ''Access Denied: No token provided'')] [], w))
   \<and> (\<forall>token err.
         cookies req ''auth_token'' = Some token \<and> token \<noteq> Other []
         \<and> jwt_verify (hmac E) (JWT_SECRET E) (date_now E) token = Inl err
      \<longrightarrow> protected handler E w req =
            (json_response 403
               [(''success'', JBool False), (''message'', JStr ''Forbidden: Invalid token'')] [],
             logged JwtVerify w))
   \<and> (\<forall>token decoded.
         cookies req ''auth_token'' = Some token
         \<and> jwt_verify (hmac E) (JWT_SECRET E) (date_now E) token = Inr decoded
      \<longrightarrow> authenticateJWT E w req =
            (Next (req\<lparr>req_user_id := Some (id_claim decoded)\<rparr>), logged JwtVerify w)
          \<and> protected handler E w req =
            handler E (logged JwtVerify w) (req\<lparr>req_user_id := Some (id_claim decoded)\<rparr>)
          \<and> protected get_validate E w req =
            (json_response 200 [(''tokenIsValid'', JBool True)] [], logged JwtVerify w))"
  by (auto simp add: authenticateJWT_def protected_def get_validate_def jwt_verify_def
        split: token_string.splits)

text \<open>
  The three cases at concrete requests: no cookie, a cookie that is not a token, and the
  valid token of user 1.
\<close>

theorem gate_decision_witness:
  "protected get_validate env0 world0 request0 =
     (json_response 401
        [(''success'', JBool False), (''message'', JStr ''Access Denied: No token provided'')] [], world0)
   \<and> protected get_validate env0 world0 (request0\<lparr>cookies := [''auth_token'' \<mapsto> Other ''garbage'']\<rparr>) =
     (json_response 403
        [(''success'', JBool False), (''message'', JStr ''Forbidden: Invalid token'')] [],
      logged JwtVerify world0)
   \<and> protected get_validate env0 world0 (request0\<lparr>cookies := [''auth_token'' \<mapsto> token0]\<rparr>) =
     (json_response 200 [(''tokenIsValid'', JBool True)] [], logged JwtVerify world0)"
proof -
  have none: "cookies request0 ''auth_token'' = None"
    by (simp add: request0_def)
  have bad: "jwt_verify (hmac env0) (JWT_SECRET env0) (date_now env0) (Other ''garbage'') = Inl SignatureInvalid"
    by (simp add: jwt_verify_def)
  have c1: "cookies (request0\<lparr>cookies := [''auth_token'' \<mapsto> Other ''garbage'']\<rparr>) ''auth_token'' = Some (Other ''garbage'')"
    by simp
  have c2: "cookies (request0\<lparr>cookies := [''auth_token'' \<mapsto> token0]\<rparr>) ''auth_token'' = Some token0"
    by simp
  show ?thesis
    using gate_decision [of request0 env0 world0 get_validate] none
      gate_decision [of "request0\<lparr>cookies := [''auth_token'' \<mapsto> Other ''garbage'']\<rparr>" env0 world0 get_validate]
      gate_decision [of "request0\<lparr>cookies := [''auth_token'' \<mapsto> token0]\<rparr>" env0 world0 get_validate]
      bad c1 c2 verify_token0
    by blast
qed

text \<open>
  C1 as stated fails for the request header \<^verbatim>\<open>Cookie: auth_token=\<close>. The cookie is
  present, its value would not verify, and yet the answer is the 401 of the missing
  token, not 403: \<^verbatim>\<open>!token\<close> is true of the empty string.
\<close>

theorem empty_cookie_counterexample:
  "cookies (request0\<lparr>cookies := [''auth_token'' \<mapsto> Other []]\<rparr>) ''auth_token'' = Some (Other [])
   \<and> jwt_verify (hmac env0) (JWT_SECRET env0) (date_now env0) (Other []) = Inl SignatureInvalid
   \<and> protected get_validate env0 world0 (request0\<lparr>cookies := [''auth_token'' \<mapsto> Other []]\<rparr>) =
       (json_response 401
          [(''success'', JBool False), (''message'', JStr ''Access Denied: No token provided'')] [], world0)
   \<and> status (fst (protected get_validate env0 world0 (request0\<lparr>cookies := [''auth_token'' \<mapsto> Other []]\<rparr>))) \<noteq> 403"
  by (simp add: protected_def authenticateJWT_def jwt_verify_def json_response_def)

text \<open>
  C8. The gate never consults the store: its decision is the same whatever the world,
  and the only trace it leaves is the entry of the verification in the log. A token that
  verifies is admitted with its subject id attached whether or not a row of \<open>users\<close> has
  that id; when none has, \<open>DELETE /profile/delete\<close> is reached all the same, its query
  finds nothing and the 404 is the handler's answer.
\<close>

theorem gate_ignores_store:
  "fst (authenticateJWT E w req) = fst (authenticateJWT E w' req)
   \<and> (snd (authenticateJWT E w req) = w \<or> snd (authenticateJWT E w req) = logged JwtVerify w)
   \<and> (\<forall>token decoded.
         cookies req ''auth_token'' = Some token
         \<and> jwt_verify (hmac E) (JWT_SECRET E) (date_now E) token = Inr decoded
      \<longrightarrow> authenticateJWT E w req =
            (Next (req\<lparr>req_user_id := Some (id_claim decoded)\<rparr>), logged JwtVerify w)
          \<and> (answers w \<and> id_claim decoded \<notin> set (map users_id (users w))
              \<longrightarrow> protected delete_delete E w req =
                    (json_response 404
                       [(''success'', JBool False), (''message'', JStr ''User to delete not found.'')] [],
                     w\<lparr>outages := tl (outages w),
                       log := log w @ [JwtVerify, PoolQuery Delete_users]\<rparr>)))"
proof -
  have 1: "fst (authenticateJWT E w req) = fst (authenticateJWT E w' req)"
    by (simp add: authenticateJWT_def split: option.splits sum.splits)
  have 2: "snd (authenticateJWT E w req) = w \<or> snd (authenticateJWT E w req) = logged JwtVerify w"
    by (simp add: authenticateJWT_def split: option.splits sum.splits)
  have 3: "authenticateJWT E w req =
            (Next (req\<lparr>req_user_id := Some (id_claim decoded)\<rparr>), logged JwtVerify w)"
    if "cookies req ''auth_token'' = Some token"
      and "jwt_verify (hmac E) (JWT_SECRET E) (date_now E) token = Inr decoded"
    for token decoded
    using that by (auto simp add: authenticateJWT_def jwt_verify_def split: token_string.splits)
  have 4: "protected delete_delete E w req =
             (json_response 404
                [(''success'', JBool False), (''message'', JStr ''User to delete not found.'')] [],
              w\<lparr>outages := tl (outages w), log := log w @ [JwtVerify, PoolQuery Delete_users]\<rparr>)"
    if "cookies req ''auth_token'' = Some token"
      and "jwt_verify (hmac E) (JWT_SECRET E) (date_now E) token = Inr decoded"
      and "answers w" and "id_claim decoded \<notin> set (map users_id (users w))"
    for token decoded
  proof -
    have "answers (logged JwtVerify w)"
      using that(3) by (simp add: answers_def logged_def)
    moreover have "id_claim decoded \<notin> set (map users_id (users (logged JwtVerify w)))"
      using that(4) by (simp add: logged_def)
    ultimately show ?thesis
      using 3 [OF that(1,2)]
      by (simp add: protected_def delete_delete_def pool_query_delete logged_def)
  qed
  from 1 2 3 4 show ?thesis by blast
qed

text \<open>The token of user 1 against a store from which the account has been deleted.\<close>

theorem gate_ignores_store_witness:
  "authenticateJWT env0 (world0\<lparr>users := [], user_profiles := []\<rparr>)
       (request0\<lparr>cookies := [''auth_token'' \<mapsto> token0]\<rparr>) =
     (Next (request0\<lparr>cookies := [''auth_token'' \<mapsto> token0], req_user_id := Some 1\<rparr>),
      logged JwtVerify (world0\<lparr>users := [], user_profiles := []\<rparr>))
   \<and> protected delete_delete env0 (world0\<lparr>users := [], user_profiles := []\<rparr>)
       (request0\<lparr>cookies := [''auth_token'' \<mapsto> token0]\<rparr>) =
     (json_response 404
        [(''success'', JBool False), (''message'', JStr ''User to delete not found.'')] [],
      world0\<lparr>users := [], user_profiles := [], log := [JwtVerify, PoolQuery Delete_users]\<rparr>)"
proof -
  let ?w = "world0\<lparr>users := [], user_profiles := []\<rparr>"
  let ?req = "request0\<lparr>cookies := [''auth_token'' \<mapsto> token0]\<rparr>"
  have c: "cookies ?req ''auth_token'' = Some token0" by simp
  have a: "answers ?w" by (simp add: answers_def world0_def)
  have n: "id_claim \<lparr>id_claim = 1, iat_claim = 900, exp_claim = 2700\<rparr> \<notin> set (map users_id (users ?w))"
    by simp
  show ?thesis
    using gate_ignores_store [of env0 ?w ?req ?w] c a n verify_token0
    by (simp add: world0_def)
qed


section \<open>Login\<close>

text \<open>
  What login does with well-formed credentials that are wrong: an unknown username and a
  known username with a string password that \<^verbatim>\<open>bcrypt.compare\<close> finds not to match get
  the same response, 401 with \<open>{success:false, message:"Username and/or password is
  incorrect."}\<close> and no cookie.
\<close>

lemma login_wrong_string_password:
  assumes "answers w1" and "answers w2"
    and "pg_text (body req1 ''username'') = Inr t1"
    and "\<not> (\<exists>r \<in> set (users w1). t1 = Some (username r))"
    and "pg_text (body req2 ''username'') = Inr t2"
    and "filter (\<lambda>r. t2 = Some (username r)) (users w2) = user0 # others"
    and "body req2 ''password'' = Some (JStr password)"
    and "\<not> bcrypt_matches E password (password_hash user0)"
  shows "fst (post_login E w1 req1) = fst (post_login E w2 req2)
         \<and> fst (post_login E w1 req1) =
             \<lparr>status = 401,
              json_body = [(''success'', JBool False),
                           (''message'', JStr ''Username and/or password is incorrect.'')],
              set_cookies = []\<rparr>"
proof -
  from assms(4) have "filter (\<lambda>r. t1 = Some (username r)) (users w1) = []"
    by (simp add: filter_empty_conv)
  then have 1: "fst (post_login E w1 req1) =
      json_response 401 [(''success'', JBool False), (''message'', JStr ''Username and/or password is incorrect.'')] []"
    using assms(1,3) by (simp add: post_login_def pool_query_select Let_def)
  have 2: "fst (post_login E w2 req2) =
      json_response 401 [(''success'', JBool False), (''message'', JStr ''Username and/or password is incorrect.'')] []"
    using assms(2,5,6,7,8) by (simp add: post_login_def pool_query_select Let_def)
  from 1 2 show ?thesis by (simp add: json_response_def)
qed

lemma bcrypt_compare_non_string:
  "\<forall>s. password \<noteq> Some (JStr s) \<Longrightarrow> bcrypt_compare E password hash = Inl IllegalArguments"
  by (cases "(E, password, hash)" rule: bcrypt_compare.cases) simp_all

text \<open>
  C2, where the code departs from it. A password that is not a string is never compared:
  \<^verbatim>\<open>bcrypt.compare\<close> rejects, and the \<^verbatim>\<open>catch\<close> block answers 500 with
  \<open>{error:"Server error"}\<close>. That happens only after a row was found, so for such a
  password the response is 500 when the username exists and 401 when it does not: the
  two causes are told apart. A username the store cannot read as text is answered with
  500 as well, whether or not it exists.
\<close>

theorem login_reveals_username:
  "(answers w \<and> pg_text (body req ''username'') = Inr t
      \<and> (\<forall>s. body req ''password'' \<noteq> Some (JStr s))
    \<longrightarrow> fst (post_login E w req) =
          (if \<exists>r \<in> set (users w). t = Some (username r)
           then json_response 500 [(''error'', JStr ''Server error'')] []
           else json_response 401
                  [(''success'', JBool False),
                   (''message'', JStr ''Username and/or password is incorrect.'')] []))
   \<and> (pg_text (body req ''username'') = Inl e
    \<longrightarrow> fst (post_login E w req) = json_response 500 [(''error'', JStr ''Server error'')] [])"
proof -
  have known: "fst (post_login E w req) = json_response 500 [(''error'', JStr ''Server error'')] []"
    if "answers w" and "pg_text (body req ''username'') = Inr t"
      and "\<forall>s. body req ''password'' \<noteq> Some (JStr s)"
      and "\<exists>r \<in> set (users w). t = Some (username r)"
  proof -
    from that(4) obtain user0 others where
      "filter (\<lambda>r. t = Some (username r)) (users w) = user0 # others"
      by (cases "filter (\<lambda>r. t = Some (username r)) (users w)") (auto simp add: filter_empty_conv)
    with that(1,2) bcrypt_compare_non_string [OF that(3)] show ?thesis
      by (simp add: post_login_def pool_query_select server_error_def Let_def)
  qed
  have unknown: "fst (post_login E w req) =
        json_response 401
          [(''success'', JBool False), (''message'', JStr ''Username and/or password is incorrect.'')] []"
    if "answers w" and "pg_text (body req ''username'') = Inr t"
      and "\<not> (\<exists>r \<in> set (users w). t = Some (username r))"
  proof -
    from that(3) have "filter (\<lambda>r. t = Some (username r)) (users w) = []"
      by (simp add: filter_empty_conv)
    with that(1,2) show ?thesis
      by (simp add: post_login_def pool_query_select Let_def)
  qed
  have unreadable: "fst (post_login E w req) = json_response 500 [(''error'', JStr ''Server error'')] []"
    if "pg_text (body req ''username'') = Inl e"
    using that
    by (simp add: post_login_def pool_query_def exec_def select_users_by_username_def
          server_error_def Let_def split: list.splits bool.splits)
  from known unknown unreadable show ?thesis
    by simp
qed

text \<open>
  The password \<open>123\<close>, a number, sent once with the name of alice, who is registered, and
  once with the name of bob, who is not.
\<close>

theorem login_reveals_username_witness:
  "fst (post_login env0 world0
         (request0\<lparr>body := [''username'' \<mapsto> JStr ''alice'', ''password'' \<mapsto> JNum 123]\<rparr>)) =
     json_response 500 [(''error'', JStr ''Server error'')] []
   \<and> fst (post_login env0 world0
         (request0\<lparr>body := [''username'' \<mapsto> JStr ''bob'', ''password'' \<mapsto> JNum 123]\<rparr>)) =
     json_response 401
       [(''success'', JBool False), (''message'', JStr ''Username and/or password is incorrect.'')] []"
proof -
  let ?alice = "request0\<lparr>body := [''username'' \<mapsto> JStr ''alice'', ''password'' \<mapsto> JNum 123]\<rparr>"
  let ?bob = "request0\<lparr>body := [''username'' \<mapsto> JStr ''bob'', ''password'' \<mapsto> JNum 123]\<rparr>"
  have a: "pg_text (body ?alice ''username'') = Inr (Some ''alice'')"
    and b: "pg_text (body ?bob ''username'') = Inr (Some ''bob'')"
    by (simp_all add: pg_text_def)
  have pa: "\<forall>s. body ?alice ''password'' \<noteq> Some (JStr s)"
    and pb: "\<forall>s. body ?bob ''password'' \<noteq> Some (JStr s)"
    by simp_all
  have ka: "\<exists>r \<in> set (users world0). Some ''alice'' = Some (username r)"
    and kb: "\<not> (\<exists>r \<in> set (users world0). Some ''bob'' = Some (username r))"
    by (simp_all add: world0_def)
  from login_reveals_username [of world0 ?alice "Some ''alice''" env0, THEN conjunct1]
    answers_world0 a pa ka
  have 1: "fst (post_login env0 world0 ?alice) = json_response 500 [(''error'', JStr ''Server error'')] []"
    by simp
  from login_reveals_username [of world0 ?bob "Some ''bob''" env0, THEN conjunct1]
    answers_world0 b pb kb
  have 2: "fst (post_login env0 world0 ?bob) =
     json_response 401
       [(''success'', JBool False), (''message'', JStr ''Username and/or password is incorrect.'')] []"
    by simp
  from 1 2 show ?thesis by simp
qed


section \<open>Registration\<close>

text \<open>
  The three ways a registration can end: nothing was inserted; the user row was inserted
  and the store rejected the insert of its profile; both rows were inserted and the answer
  is 201.
\<close>

lemma register_outcomes:
  assumes reg: "post_register E w req = (res, w')"
  shows "(users w' = users w \<and> user_profiles w' = user_profiles w \<and> status res \<noteq> 201)
       \<or> (\<exists>row. users w' = users w @ [row] \<and> user_profiles w' = user_profiles w
             \<and> status res = 500 \<and> (\<exists>rest. outages w = False # False # True # rest))
       \<or> (\<exists>row. users w' = users w @ [row]
             \<and> users_id row = users_id_seq w + 1
             \<and> pg_varchar (body req ''username'') = Inr (Some (username row))
             \<and> user_profiles w' = user_profiles w @
                  [\<lparr>user_id = users_id row, display_name = Some ''No name set yet.'',
                    bio = Some ''No bio set yet.''\<rparr>]
             \<and> res = json_response 201
                  [(''success'', JBool True), (''redirect'', JStr ''/profile'')]
                  [Cookie ''auth_token''
                     (jwt_sign (hmac E) (JWT_SECRET E) (date_now E) (users_id row) 1800)
                     (issuance_options E)]
             \<and> log w' = log w @
                  [PoolQuery Select_users_by_username, BcryptGenSalt, BcryptHash,
                   PoolQuery Insert_users, PoolQuery Insert_user_profiles, JwtSign])"
proof -
  let ?u = "body req ''username''"
  obtain r1 w1 where q1: "pool_query Select_users_by_username [?u] w = (r1, w1)"
    by (cases "pool_query Select_users_by_username [?u] w")
  have w1: "w1 = w\<lparr>outages := tl (outages w), log := log w @ [PoolQuery Select_users_by_username]\<rparr>"
    using pool_query_cases [OF q1] by (auto dest: exec_select)
  show ?thesis
  proof (cases r1)
    case (Inl e)
    with reg q1 have "res = server_error" and "w' = w1"
      by (auto simp add: post_register_def)
    with w1 show ?thesis
      by (simp add: server_error_def json_response_def)
  next
    case user: (Inr user)
    then have up1: "answers w"
      using pool_query_cases [OF q1] by auto
    show ?thesis
    proof (cases "length (rows user) > 0")
      case True
      with reg q1 user have "status res = 409" and "w' = w1"
        by (auto simp add: post_register_def json_response_def)
      with w1 show ?thesis by simp
    next
      case none: False
      let ?w2 = "logged BcryptHash (logged BcryptGenSalt w1)"
      have w2: "users ?w2 = users w" "user_profiles ?w2 = user_profiles w"
        "users_id_seq ?w2 = users_id_seq w" "outages ?w2 = tl (outages w)"
        "log ?w2 = log w @ [PoolQuery Select_users_by_username, BcryptGenSalt, BcryptHash]"
        by (simp_all add: w1 logged_def)
      show ?thesis
      proof (cases "bcrypt_hash E (body req ''password'') (random_salt E)")
        case (Inl err)
        with reg q1 user none have "res = server_error" and "w' = ?w2"
          by (auto simp add: post_register_def Let_def)
        with w2 show ?thesis
          by (simp add: server_error_def json_response_def)
      next
        case hashed: (Inr hashed)
        obtain r3 w3 where q3: "pool_query Insert_users [?u, Some (JStr hashed)] ?w2 = (r3, w3)"
          by (cases "pool_query Insert_users [?u, Some (JStr hashed)] ?w2")
        from pool_query_cases [OF q3] consider
            (down) "r3 = Inl ConnectionError"
              "w3 = ?w2\<lparr>outages := tl (outages ?w2), log := log ?w2 @ [PoolQuery Insert_users]\<rparr>"
          | (up) "answers ?w2"
              "insert_users ?u (Some (JStr hashed))
                 (?w2\<lparr>outages := tl (outages ?w2), log := log ?w2 @ [PoolQuery Insert_users]\<rparr>) = (r3, w3)"
          by (auto simp add: exec_def)
        then show ?thesis
        proof cases
          case down
          with reg q1 user none hashed q3 have "res = server_error" and "w' = w3"
            by (auto simp add: post_register_def Let_def)
          with down w2 show ?thesis
            by (simp add: server_error_def json_response_def)
        next
          case up
          from insert_users_cases [OF up(2)] consider
              (failed) e where "r3 = Inl e" "users w3 = users w" "user_profiles w3 = user_profiles w"
            | (inserted) row where "r3 = Inr \<lparr>rows = [row], rowCount = 1\<rparr>"
                "users_id row = users_id_seq w + 1"
                "pg_varchar ?u = Inr (Some (username row))"
                "users w3 = users w @ [row]" "user_profiles w3 = user_profiles w"
                "outages w3 = tl (tl (outages w))"
                "log w3 = log w @ [PoolQuery Select_users_by_username, BcryptGenSalt, BcryptHash,
                                   PoolQuery Insert_users]"
            using w2 by auto
          then show ?thesis
          proof cases
            case failed
            with reg q1 user none hashed q3 have "res = server_error" and "w' = w3"
              by (auto simp add: post_register_def Let_def)
            with failed show ?thesis
              by (simp add: server_error_def json_response_def)
          next
            case inserted
            obtain r4 w4 where
              q4: "pool_query Insert_user_profiles [Some (JNum (users_id row))] w3 = (r4, w4)"
              by (cases "pool_query Insert_user_profiles [Some (JNum (users_id row))] w3")
            from pool_query_cases [OF q4] consider
                (down4) rest where "r4 = Inl ConnectionError" "outages w3 = True # rest"
                  "users w4 = users w3" "user_profiles w4 = user_profiles w3"
              | (up4) "insert_user_profiles (Some (JNum (users_id row)))
                   (w3\<lparr>outages := tl (outages w3), log := log w3 @ [PoolQuery Insert_user_profiles]\<rparr>)
                   = (r4, w4)"
              by (auto simp add: exec_def)
            then show ?thesis
            proof cases
              case down4
              with reg q1 user none hashed q3 inserted q4 have "res = server_error" and "w' = w4"
                by (auto simp add: post_register_def Let_def)
              moreover from up1 up(1) w2(4) inserted(6) down4(2)
              have "\<exists>rest. outages w = False # False # True # rest"
                by (auto simp add: answers_def split: list.splits bool.splits)
              ultimately show ?thesis
                using down4 inserted by (simp add: server_error_def json_response_def)
            next
              case up4
              from insert_user_profiles_cases [OF up4] inserted
              have r4: "r4 = Inr \<lparr>rows = [], rowCount = 1\<rparr>"
                and w4: "users w4 = users w @ [row]"
                  "user_profiles w4 = user_profiles w @
                     [\<lparr>user_id = users_id row, display_name = Some ''No name set yet.'',
                       bio = Some ''No bio set yet.''\<rparr>]"
                  "log w4 = log w @ [PoolQuery Select_users_by_username, BcryptGenSalt, BcryptHash,
                                     PoolQuery Insert_users, PoolQuery Insert_user_profiles]"
                by auto
              from reg q1 user none hashed q3 inserted q4 r4
              have "res = json_response 201
                  [(''success'', JBool True), (''redirect'', JStr ''/profile'')]
                  [Cookie ''auth_token''
                     (jwt_sign (hmac E) (JWT_SECRET E) (date_now E) (users_id row) 1800)
                     (issuance_options E)]"
                and "w' = logged JwtSign w4"
                by (auto simp add: post_register_def Let_def)
              with w4 inserted show ?thesis
                by (simp add: logged_def)
            qed
          qed
        qed
      qed
    qed
  qed
qed

text \<open>
  C4, as the code has it. A registration that answers 201 has appended one row to \<open>users\<close>,
  with the next id of the sequence and the requested username, and then one row to
  \<open>user_profiles\<close> that refers to the new id and carries the defaults of the schema,
  \<open>'No name set yet.'\<close> and \<open>'No bio set yet.'\<close>; the two inserts are separate statements.
  If every user had a profile before, every user has one afterwards, unless the store
  rejects the third query of the request, the insert of the profile.
\<close>

theorem registration_creates_user_and_profile:
  "(status (fst (post_register E w req)) = 201 \<longrightarrow>
      (\<exists>row. users (snd (post_register E w req)) = users w @ [row]
         \<and> users_id row = users_id_seq w + 1
         \<and> pg_varchar (body req ''username'') = Inr (Some (username row))
         \<and> user_profiles (snd (post_register E w req)) = user_profiles w @
              [\<lparr>user_id = users_id row, display_name = Some ''No name set yet.'',
                bio = Some ''No bio set yet.''\<rparr>]
         \<and> log (snd (post_register E w req)) = log w @
              [PoolQuery Select_users_by_username, BcryptGenSalt, BcryptHash,
               PoolQuery Insert_users, PoolQuery Insert_user_profiles, JwtSign]))
   \<and> (every_user_has_profile w \<and> \<not> (\<exists>rest. outages w = False # False # True # rest) \<longrightarrow>
        every_user_has_profile (snd (post_register E w req)))"
proof -
  obtain res w' where reg: "post_register E w req = (res, w')"
    by (cases "post_register E w req")
  from register_outcomes [OF reg] show ?thesis
    unfolding reg fst_conv snd_conv
    by (elim disjE exE conjE)
       (auto simp add: json_response_def
          intro: every_user_has_profile_same every_user_has_profile_append)
qed

text \<open>Registering bob in \<open>world0\<close>.\<close>

theorem registration_creates_user_and_profile_witness:
  "status (fst (post_register env0 world0 register_bob)) = 201
   \<and> every_user_has_profile world0
   \<and> every_user_has_profile (snd (post_register env0 world0 register_bob))
   \<and> user_profiles (snd (post_register env0 world0 register_bob)) =
       user_profiles world0 @
         [\<lparr>user_id = 2, display_name = Some ''No name set yet.'', bio = Some ''No bio set yet.''\<rparr>]"
proof -
  have s: "status (fst (post_register env0 world0 register_bob)) = 201"
    by (simp add: post_register_def register_bob_def pool_query_def exec_def
          select_users_by_username_def insert_users_def insert_user_profiles_def
          pg_varchar_def pg_text_def varchar255_def logged_def json_response_def
          env0_def world0_def request0_def Let_def)
  have i: "every_user_has_profile world0"
    by (simp add: every_user_has_profile_def world0_def)
  have o: "\<not> (\<exists>rest. outages world0 = False # False # True # rest)"
    by (simp add: world0_def)
  have n: "users_id_seq world0 + 1 = 2"
    by (simp add: world0_def)
  from registration_creates_user_and_profile [of env0 world0 register_bob] s i o n
  show ?thesis by auto
qed

text \<open>
  C4 as stated fails when the store goes away between the two inserts: the handler
  answers 500, and bob's row stays in \<open>users\<close> with no row in \<open>user_profiles\<close>. Nothing
  rolls the first insert back.
\<close>

theorem profile_insert_failure_counterexample:
  "every_user_has_profile (world0\<lparr>outages := [False, False, True]\<rparr>)
   \<and> fst (post_register env0 (world0\<lparr>outages := [False, False, True]\<rparr>) register_bob) =
       json_response 500 [(''error'', JStr ''Server error'')] []
   \<and> users (snd (post_register env0 (world0\<lparr>outages := [False, False, True]\<rparr>) register_bob)) =
       [\<lparr>users_id = 1, username = ''alice'', password_hash = ''saltpw1''\<rparr>,
        \<lparr>users_id = 2, username = ''bob'', password_hash = ''saltpw2''\<rparr>]
   \<and> user_profiles (snd (post_register env0 (world0\<lparr>outages := [False, False, True]\<rparr>) register_bob)) =
       [\<lparr>user_id = 1, display_name = Some ''No name set yet.'', bio = Some ''No bio set yet.''\<rparr>]
   \<and> \<not> every_user_has_profile
         (snd (post_register env0 (world0\<lparr>outages := [False, False, True]\<rparr>) register_bob))"
  by (simp add: post_register_def register_bob_def pool_query_def exec_def
        select_users_by_username_def insert_users_def insert_user_profiles_def
        pg_varchar_def pg_text_def varchar255_def logged_def json_response_def server_error_def
        every_user_has_profile_def env0_def world0_def request0_def Let_def)

text \<open>
  C5. When the store answers the lookup and some row of \<open>users\<close> already has the
  requested username (the text the store reads from the parameter), registration answers 409 with the body
  \<open>{success:false, message:"Username is already in use. Please choose a different one."}\<close>
  and sets no cookie. The tables and the id sequence are unchanged, and the lookup is the
  only call made: no salt, no hash, no insert, no token.
\<close>

theorem register_conflict:
  assumes "answers w"
    and "\<exists>r \<in> set (users w). pg_text (body req ''username'') = Inr (Some (username r))"
  shows "post_register E w req =
           (json_response 409
              [(''success'', JBool False),
               (''message'', JStr ''Username is already in use. Please choose a different one.'')] [],
            w\<lparr>outages := tl (outages w), log := log w @ [PoolQuery Select_users_by_username]\<rparr>)
         \<and> set_cookies (fst (post_register E w req)) = []
         \<and> users (snd (post_register E w req)) = users w
         \<and> user_profiles (snd (post_register E w req)) = user_profiles w
         \<and> users_id_seq (snd (post_register E w req)) = users_id_seq w
         \<and> log (snd (post_register E w req)) = log w @ [PoolQuery Select_users_by_username]"
proof -
  from assms(2) obtain t where t: "pg_text (body req ''username'') = Inr t"
    and "filter (\<lambda>r. t = Some (username r)) (users w) \<noteq> []"
    by (auto simp add: filter_empty_conv)
  then have "post_register E w req =
           (json_response 409
              [(''success'', JBool False),
               (''message'', JStr ''Username is already in use. Please choose a different one.'')] [],
            w\<lparr>outages := tl (outages w), log := log w @ [PoolQuery Select_users_by_username]\<rparr>)"
    using assms(1) by (simp add: post_register_def pool_query_select [OF _ t] Let_def)
  then show ?thesis by (simp add: json_response_def)
qed

text \<open>Registering the name alice a second time.\<close>

theorem register_conflict_witness:
  "post_register env0 world0 (request0\<lparr>body := [''username'' \<mapsto> JStr ''alice'', ''password'' \<mapsto> JStr ''pw2'']\<rparr>) =
     (json_response 409
        [(''success'', JBool False),
         (''message'', JStr ''Username is already in use. Please choose a different one.'')] [],
      world0\<lparr>log := [PoolQuery Select_users_by_username]\<rparr>)"
proof -
  let ?req = "request0\<lparr>body := [''username'' \<mapsto> JStr ''alice'', ''password'' \<mapsto> JStr ''pw2'']\<rparr>"
  have b: "\<exists>r \<in> set (users world0). pg_text (body ?req ''username'') = Inr (Some (username r))"
    by (simp add: world0_def pg_text_def)
  show ?thesis using register_conflict [OF answers_world0 b, of env0] by (simp add: world0_def)
qed


section \<open>Token issue and verification\<close>







section \<open>Logout\<close>

text \<open>
  C6, as the code has it. Logout answers 200 with \<open>{success:true}\<close> whatever the request
  carries, and instructs the client to clear the cookie \<open>auth_token\<close>, the name under which
  registration and login set it. The instruction repeats the \<open>httpOnly\<close> and \<open>secure\<close>
  attributes of issuance, has no \<open>maxAge\<close>, and adds \<open>sameSite: "strict"\<close>, which issuance
  does not set. The world is returned as it was: no call to the codec or the store is
  logged, and a second logout answers as the first.
\<close>

theorem logout_response:
  "post_logout E w req =
     (json_response 200 [(''success'', JBool True)]
        [ClearCookie ''auth_token''
           ((issuance_options E)\<lparr>sameSite := Some ''strict'', maxAge := None\<rparr>)],
      w)
   \<and> post_logout E w req = post_logout E w req'
   \<and> snd (post_logout E w req) = w
   \<and> post_logout E (snd (post_logout E w req)) req' = post_logout E w req
   \<and> list_all (\<lambda>c. \<exists>uid. c = Cookie ''auth_token''
        (jwt_sign (hmac E) (JWT_SECRET E) (date_now E) uid 1800) (issuance_options E))
       (set_cookies (fst (post_login E w req)) @ set_cookies (fst (post_register E w req)))"
  using issued_by_login [of E w req] issued_by_register [of E w req]
  by (simp add: post_logout_def issuance_options_def)

text \<open>
  C6 as stated fails on the attributes: the cookie alice gets at login has no \<open>sameSite\<close>,
  the clearing instruction of logout has \<open>sameSite = "strict"\<close>.
\<close>

theorem logout_attributes_counterexample:
  "set_cookies (fst (post_login env0 world0
       (request0\<lparr>body := [''username'' \<mapsto> JStr ''alice'', ''password'' \<mapsto> JStr ''pw1'']\<rparr>))) =
     [Cookie ''auth_token'' (jwt_sign (hmac env0) (JWT_SECRET env0) (date_now env0) 1 1800)
        \<lparr>httpOnly = True, secure = False, sameSite = None, maxAge = Some 1800000\<rparr>]
   \<and> set_cookies (fst (post_logout env0 world0 request0)) =
     [ClearCookie ''auth_token''
        \<lparr>httpOnly = True, secure = False, sameSite = Some ''strict'', maxAge = None\<rparr>]
   \<and> \<lparr>httpOnly = True, secure = False, sameSite = Some ''strict'', maxAge = None\<rparr>
       \<noteq> \<lparr>httpOnly = True, secure = False, sameSite = None, maxAge = None\<rparr>"
  by (simp add: post_login_def post_logout_def pool_query_def exec_def select_users_by_username_def
        pg_text_def
        world0_def env0_def request0_def json_response_def issuance_options_def logged_def Let_def)


section \<open>Profile update\<close>

text \<open>
  C7, where the code departs from it. When neither \<open>displayName\<close> nor \<open>bio\<close> is truthy the
  list of assignments is empty, the statement sent is \<^verbatim>\<open>UPDATE user_profiles SET  WHERE
  user_id = $1\<close>, the store rejects it and the \<^verbatim>\<open>catch\<close> block answers 500 with
  \<open>{success:false, message:"An error has occurred. Please try again later."}\<close>. The
  branch \<^verbatim>\<open>rowCount === 0\<close> with its status 300 is not reached.
\<close>

theorem update_without_fields:
  assumes "\<not> truthy (body req ''displayName'')" and "\<not> truthy (body req ''bio'')"
  shows "put_update E w req =
           (json_response 500
              [(''success'', JBool False),
               (''message'', JStr ''An error has occurred. Please try again later.'')] [],
            w\<lparr>outages := tl (outages w), log := log w @ [PoolQuery (Update_user_profiles [] 1)]\<rparr>)
         \<and> status (fst (put_update E w req)) \<noteq> 300"
  using assms
  by (simp add: put_update_def pool_query_def exec_def update_user_profiles_def profile_error_def
        json_response_def Let_def split: list.splits bool.splits)

text \<open>The request with a valid token and the body \<open>{}\<close>, through the gate.\<close>

theorem update_without_fields_witness:
  "protected put_update env0 world0 (request0\<lparr>cookies := [''auth_token'' \<mapsto> token0]\<rparr>) =
     (json_response 500
        [(''success'', JBool False),
         (''message'', JStr ''An error has occurred. Please try again later.'')] [],
      world0\<lparr>log := [JwtVerify, PoolQuery (Update_user_profiles [] 1)]\<rparr>)"
proof -
  let ?req = "request0\<lparr>cookies := [''auth_token'' \<mapsto> token0]\<rparr>"
  have "cookies ?req ''auth_token'' = Some token0" by simp
  then have g: "authenticateJWT env0 world0 ?req =
      (Next (?req\<lparr>req_user_id := Some 1\<rparr>), logged JwtVerify world0)"
    using gate_admits [OF _ verify_token0, of ?req world0] by simp
  have d: "\<not> truthy (body (?req\<lparr>req_user_id := Some 1\<rparr>) ''displayName'')"
    and b: "\<not> truthy (body (?req\<lparr>req_user_id := Some 1\<rparr>) ''bio'')"
    by (simp_all add: request0_def)
  from update_without_fields [OF d b, of env0 "logged JwtVerify world0"] g
  show ?thesis
    by (simp add: protected_def logged_def world0_def)
qed

text \<open>
  C9. A field whose value is falsy (absent, \<open>null\<close>, \<open>false\<close>, \<open>0\<close> or the empty string)
  is treated as an absent field: the handler does exactly what it does for the request
  without the field, the statement it sends has no assignment to the column, and the
  column keeps its value in every row. No update turns a \<open>display_name\<close> or a \<open>bio\<close> into the
  empty string: a row that has one afterwards had it before.
\<close>

theorem falsy_field_is_absent:
  "(\<not> truthy (body req ''displayName'') \<longrightarrow>
      put_update E w req = put_update E w (req\<lparr>body := (body req)(''displayName'' := None)\<rparr>)
      \<and> (\<exists>sc n. log (snd (put_update E w req)) = log w @ [PoolQuery (Update_user_profiles sc n)]
            \<and> Display_name \<notin> fst ` set sc)
      \<and> map display_name (user_profiles (snd (put_update E w req))) = map display_name (user_profiles w))
   \<and> (\<not> truthy (body req ''bio'') \<longrightarrow>
      put_update E w req = put_update E w (req\<lparr>body := (body req)(''bio'' := None)\<rparr>)
      \<and> (\<exists>sc n. log (snd (put_update E w req)) = log w @ [PoolQuery (Update_user_profiles sc n)]
            \<and> Bio \<notin> fst ` set sc)
      \<and> map bio (user_profiles (snd (put_update E w req))) = map bio (user_profiles w))
   \<and> list_all2 (\<lambda>p p'. (display_name p' = Some [] \<longrightarrow> display_name p = Some [])
                      \<and> (bio p' = Some [] \<longrightarrow> bio p = Some []))
       (user_profiles w) (user_profiles (snd (put_update E w req)))"
proof -
  obtain sc n vals where
    q: "snd (put_update E w req) = snd (pool_query (Update_user_profiles sc n) vals w)"
    and t: "\<forall>a \<in> set sc. \<exists>v. bind_param vals (snd a) = Some v \<and> truthy v"
    and d: "Display_name \<in> fst ` set sc \<longleftrightarrow> truthy (body req ''displayName'')"
    and b: "Bio \<in> fst ` set sc \<longleftrightarrow> truthy (body req ''bio'')"
    by (rule put_update_query)
  obtain r w' where p: "pool_query (Update_user_profiles sc n) vals w = (r, w')"
    by (cases "pool_query (Update_user_profiles sc n) vals w")
  from pool_query_update_cases [OF p]
  have l: "log w' = log w @ [PoolQuery (Update_user_profiles sc n)]"
    and c: "user_profiles w' = user_profiles w
         \<or> (\<exists>as key. resolve_set vals sc = Inr as
               \<and> user_profiles w' =
                   map (\<lambda>p. if key = Some (user_id p) then foldl assign p as else p)
                     (user_profiles w))"
    by auto
  have w': "snd (put_update E w req) = w'"
    by (simp add: q p)
  have same_name: "put_update E w req = put_update E w (req\<lparr>body := (body req)(''displayName'' := None)\<rparr>)"
    if "\<not> truthy (body req ''displayName'')"
    using that by (simp add: put_update_def)
  have same_bio: "put_update E w req = put_update E w (req\<lparr>body := (body req)(''bio'' := None)\<rparr>)"
    if "\<not> truthy (body req ''bio'')"
    using that by (simp add: put_update_def)
  have keep_name: "map display_name (user_profiles w') = map display_name (user_profiles w)"
    if "\<not> truthy (body req ''displayName'')"
    using c
  proof
    assume "user_profiles w' = user_profiles w"
    then show ?thesis by simp
  next
    assume "\<exists>as key. resolve_set vals sc = Inr as
               \<and> user_profiles w' =
                   map (\<lambda>p. if key = Some (user_id p) then foldl assign p as else p)
                     (user_profiles w)"
    then obtain as key where as: "resolve_set vals sc = Inr as"
      and u: "user_profiles w' =
                map (\<lambda>p. if key = Some (user_id p) then foldl assign p as else p) (user_profiles w)"
      by blast
    from resolve_set_columns [OF as] have "fst ` set as = fst ` set sc"
      by (metis set_map)
    with d that have "Display_name \<notin> fst ` set as" by simp
    then show ?thesis
      by (simp add: u display_name_foldl_assign)
  qed
  have keep_bio: "map bio (user_profiles w') = map bio (user_profiles w)"
    if "\<not> truthy (body req ''bio'')"
    using c
  proof
    assume "user_profiles w' = user_profiles w"
    then show ?thesis by simp
  next
    assume "\<exists>as key. resolve_set vals sc = Inr as
               \<and> user_profiles w' =
                   map (\<lambda>p. if key = Some (user_id p) then foldl assign p as else p)
                     (user_profiles w)"
    then obtain as key where as: "resolve_set vals sc = Inr as"
      and u: "user_profiles w' =
                map (\<lambda>p. if key = Some (user_id p) then foldl assign p as else p) (user_profiles w)"
      by blast
    from resolve_set_columns [OF as] have "fst ` set as = fst ` set sc"
      by (metis set_map)
    with b that have "Bio \<notin> fst ` set as" by simp
    then show ?thesis
      by (simp add: u bio_foldl_assign)
  qed
  have never_empty: "list_all2 (\<lambda>p p'. (display_name p' = Some [] \<longrightarrow> display_name p = Some [])
                      \<and> (bio p' = Some [] \<longrightarrow> bio p = Some []))
       (user_profiles w) (user_profiles w')"
    using c
  proof
    assume "user_profiles w' = user_profiles w"
    then show ?thesis by (simp add: list_all2_same)
  next
    assume "\<exists>as key. resolve_set vals sc = Inr as
               \<and> user_profiles w' =
                   map (\<lambda>p. if key = Some (user_id p) then foldl assign p as else p)
                     (user_profiles w)"
    then obtain as key where as: "resolve_set vals sc = Inr as"
      and u: "user_profiles w' =
                map (\<lambda>p. if key = Some (user_id p) then foldl assign p as else p) (user_profiles w)"
      by blast
    from resolve_set_truthy [OF as t] have "\<forall>a \<in> set as. snd a \<noteq> Some []" .
    then show ?thesis
      by (simp add: u list_all2_map2 list_all2_same nonempty_foldl_assign)
  qed
  from d b l same_name same_bio keep_name keep_bio never_empty show ?thesis
    unfolding w' by blast
qed

text \<open>The update of \<open>update_bio\<close> as the gate hands it on, with its empty display name.\<close>

theorem falsy_field_is_absent_witness:
  "\<not> truthy (body (update_bio\<lparr>req_user_id := Some 1\<rparr>) ''displayName'')
   \<and> put_update env0 world0 (update_bio\<lparr>req_user_id := Some 1\<rparr>) =
     put_update env0 world0
       (update_bio\<lparr>req_user_id := Some 1,
                   body := (body (update_bio\<lparr>req_user_id := Some 1\<rparr>))(''displayName'' := None)\<rparr>)
   \<and> map display_name
        (user_profiles (snd (put_update env0 world0 (update_bio\<lparr>req_user_id := Some 1\<rparr>)))) =
       map display_name (user_profiles world0)"
proof -
  have "\<not> truthy (body (update_bio\<lparr>req_user_id := Some 1\<rparr>) ''displayName'')"
    by (simp add: update_bio_def)
  with falsy_field_is_absent [of "update_bio\<lparr>req_user_id := Some 1\<rparr>" env0 world0] show ?thesis
    by blast
qed

text \<open>
  C10. An update leaves the table \<open>users\<close> and its sequence as they were. In
  \<open>user_profiles\<close> no row changes its \<open>user_id\<close>, and a row whose \<open>user_id\<close> is not the one
  in \<^verbatim>\<open>req.user_id\<close> does not change at all. For a request that passes the gate,
  \<^verbatim>\<open>req.user_id\<close> is the subject id of its token.
\<close>

theorem update_frame:
  "users (snd (put_update E w req)) = users w
   \<and> users_id_seq (snd (put_update E w req)) = users_id_seq w
   \<and> list_all2 (\<lambda>p p'. user_id p' = user_id p \<and> (req_user_id req \<noteq> Some (user_id p) \<longrightarrow> p' = p))
       (user_profiles w) (user_profiles (snd (put_update E w req)))
   \<and> (\<forall>token decoded.
         cookies req ''auth_token'' = Some token
         \<and> jwt_verify (hmac E) (JWT_SECRET E) (date_now E) token = Inr decoded
      \<longrightarrow> users (snd (protected put_update E w req)) = users w
          \<and> users_id_seq (snd (protected put_update E w req)) = users_id_seq w
          \<and> list_all2 (\<lambda>p p'. user_id p' = user_id p \<and> (user_id p \<noteq> id_claim decoded \<longrightarrow> p' = p))
              (user_profiles w) (user_profiles (snd (protected put_update E w req))))"
proof -
  have handler: "users (snd (put_update E w req)) = users w
   \<and> users_id_seq (snd (put_update E w req)) = users_id_seq w
   \<and> list_all2 (\<lambda>p p'. user_id p' = user_id p \<and> (req_user_id req \<noteq> Some (user_id p) \<longrightarrow> p' = p))
       (user_profiles w) (user_profiles (snd (put_update E w req)))" for w req
  proof -
    obtain sc n vals where
      q: "snd (put_update E w req) = snd (pool_query (Update_user_profiles sc n) vals w)"
      and k: "bind_param vals n = Some (map_option JNum (req_user_id req))"
      by (rule put_update_query)
    obtain r w' where p: "pool_query (Update_user_profiles sc n) vals w = (r, w')"
      by (cases "pool_query (Update_user_profiles sc n) vals w")
    from pool_query_update_cases [OF p] k
    have f: "users w' = users w" "users_id_seq w' = users_id_seq w"
      and c: "user_profiles w' = user_profiles w
           \<or> (\<exists>as. user_profiles w' =
                     map (\<lambda>p. if req_user_id req = Some (user_id p) then foldl assign p as else p)
                       (user_profiles w))"
      by (auto simp add: pg_int_user_id)
    from c have "list_all2 (\<lambda>p p'. user_id p' = user_id p \<and> (req_user_id req \<noteq> Some (user_id p) \<longrightarrow> p' = p))
         (user_profiles w) (user_profiles w')"
      by (auto simp add: list_all2_map2 list_all2_same user_id_foldl_assign)
    with f show ?thesis by (simp add: q p)
  qed
  have route: "users (snd (protected put_update E w req)) = users w
          \<and> users_id_seq (snd (protected put_update E w req)) = users_id_seq w
          \<and> list_all2 (\<lambda>p p'. user_id p' = user_id p \<and> (user_id p \<noteq> id_claim decoded \<longrightarrow> p' = p))
              (user_profiles w) (user_profiles (snd (protected put_update E w req)))"
    if "cookies req ''auth_token'' = Some token"
      and "jwt_verify (hmac E) (JWT_SECRET E) (date_now E) token = Inr decoded"
    for token decoded
  proof -
    let ?req = "req\<lparr>req_user_id := Some (id_claim decoded)\<rparr>"
    have p: "protected put_update E w req = put_update E (logged JwtVerify w) ?req"
      by (simp add: protected_def gate_admits [OF that])
    from handler [of "logged JwtVerify w" ?req]
    have u: "users (snd (put_update E (logged JwtVerify w) ?req)) = users w"
      and s: "users_id_seq (snd (put_update E (logged JwtVerify w) ?req)) = users_id_seq w"
      and l: "list_all2 (\<lambda>p p'. user_id p' = user_id p \<and> (Some (id_claim decoded) \<noteq> Some (user_id p) \<longrightarrow> p' = p))
               (user_profiles w) (user_profiles (snd (put_update E (logged JwtVerify w) ?req)))"
      by (simp_all add: logged_def)
    from l have "list_all2 (\<lambda>p p'. user_id p' = user_id p \<and> (user_id p \<noteq> id_claim decoded \<longrightarrow> p' = p))
               (user_profiles w) (user_profiles (snd (put_update E (logged JwtVerify w) ?req)))"
      by (rule list_all2_mono) auto
    with u s show ?thesis
      by (simp add: p)
  qed
  from handler [of w req] route show ?thesis by blast
qed

text \<open>The update of \<open>update_bio\<close>, sent with the token of user 1.\<close>

theorem update_frame_witness:
  "users (snd (protected put_update env0 world0 update_bio)) = users world0
   \<and> users_id_seq (snd (protected put_update env0 world0 update_bio)) = users_id_seq world0
   \<and> list_all2 (\<lambda>p p'. user_id p' = user_id p \<and> (user_id p \<noteq> 1 \<longrightarrow> p' = p))
       (user_profiles world0) (user_profiles (snd (protected put_update env0 world0 update_bio)))"
proof -
  have "cookies update_bio ''auth_token'' = Some token0
        \<and> jwt_verify (hmac env0) (JWT_SECRET env0) (date_now env0) token0 =
            Inr \<lparr>id_claim = 1, iat_claim = 900, exp_claim = 2700\<rparr>"
    using cookie_update_bio verify_token0 by simp
  from update_frame [of env0 world0 update_bio, THEN conjunct2, THEN conjunct2, THEN conjunct2,
      rule_format, OF this]
  show ?thesis by simp
qed

end
